theory Spec2Isabelle
  imports Main "HOL-Library.Char_ord" "HOL-Library.List_Lexorder" "HOL-Library.Sublist"
begin

unbundle bit_operations_syntax

section \<open>Strings\<close>

text \<open>
  Python strings are modelled as \<open>string\<close> (a list of bytes). \<open>lower\<close> is
  \<open>str.lower\<close> on the ASCII letters; \<open>contains m s\<close> is \<open>m in s\<close>;
  \<open>str_join sep xs\<close> is \<open>sep.join(xs)\<close>.
\<close>

definition lower_char :: "char \<Rightarrow> char" where
  "lower_char c =
     (if 65 \<le> (of_char c :: nat) \<and> (of_char c :: nat) \<le> 90
      then char_of ((of_char c :: nat) + 32) else c)"

definition lower :: "string \<Rightarrow> string" where
  "lower s = map lower_char s"

fun contains :: "string \<Rightarrow> string \<Rightarrow> bool" where
  "contains m [] = (m = [])"
| "contains m (c # cs) = (prefix m (c # cs) \<or> contains m cs)"

fun str_join :: "string \<Rightarrow> string list \<Rightarrow> string" where
  "str_join sep [] = []"
| "str_join sep [x] = x"
| "str_join sep (x # y # ys) = x @ sep @ str_join sep (y # ys)"

section \<open>The environment and the effects\<close>

text \<open>
  A path names a regular file with its permission bits (\<open>st_mode\<close>), a directory with
  the names \<open>os.listdir\<close> returns for it (in the order the system gives them), or
  nothing.
\<close>

datatype node = Regular nat | Directory "string list"

text \<open>
  The snapshot of the host one invocation sees: the content of \<open>/etc/os-release\<close>
  (\<open>None\<close> when opening it raises \<open>FileNotFoundError\<close>), the search-path resolution
  \<open>shutil.which\<close>, the file system, the home directory \<open>os.path.expanduser("~")\<close>, the
  path of the script \<open>os.path.abspath(__file__)\<close> and the value of \<open>$EDITOR\<close>.
\<close>

record env =
  os_release :: "string option"
  which :: "string \<Rightarrow> string option"
  fs :: "string \<Rightarrow> node option"
  home :: string
  script_path :: string
  editor_var :: "string option"

text \<open>
  The host answers every request: failures of the operating system other than a missing
  \<open>/etc/os-release\<close> (a file that cannot be read or written, a program that cannot be
  started) are outside this model, and so is what the spawned programs do, to the file
  system and on the terminal.
\<close>

text \<open>
  What an invocation does to the outside, in order: a line printed on standard output,
  \<open>os.makedirs\<close>, a file written with its whole content, \<open>os.remove\<close>,
  \<open>subprocess.run\<close> of an argument vector, and \<open>subprocess.run\<close> of a command line
  with \<open>shell=True\<close>.
\<close>

datatype event =
    Print string
  | Makedirs string
  | Write_file string string
  | Remove string
  | Subprocess "string list"
  | Shell string

fun is_print :: "event \<Rightarrow> bool" where
  "is_print (Print s) = True"
| "is_print e = False"

fun is_spawn :: "event \<Rightarrow> bool" where
  "is_spawn (Subprocess c) = True"
| "is_spawn (Shell s) = True"
| "is_spawn e = False"


section \<open>The parsed options\<close>

text \<open>
  The namespace \<open>parse_args\<close> returns. The options \<open>-f/--run\<close> and \<open>--run-arg\<close>
  are both declared with the destination \<open>run_arg\<close>, so they share one field.
\<close>

record args =
  os :: string
  run_arg :: "string option"
  dry_run_arg :: "string option"
  verbose :: bool
  dependencies :: "string option"
  configs :: "string option"
  install_systemd_timer :: "string option"
  Persistent :: "string option"
  OnCalendar :: "string option"
  Description :: "string option"
  status :: bool
  enable_and_start :: bool
  disable_and_stop :: bool
  logs :: bool

text \<open>Python's truth value of an optional string: \<open>None\<close> and \<open>""\<close> are false.\<close>

fun truthy :: "string option \<Rightarrow> bool" where
  "truthy None = False"
| "truthy (Some s) = (s \<noteq> [])"

section \<open>OS detection\<close>

definition detect_os :: "env \<Rightarrow> string \<Rightarrow> string" where
  "detect_os e selected_os =
     (if selected_os \<in> set [''arch'', ''ubuntu''] then selected_os
      else (case os_release e of
              None \<Rightarrow> ''unknown''
            | Some f \<Rightarrow>
                (let content = lower f in
                 if contains ''arch linux'' content then ''arch''
                 else if contains ''ubuntu'' content then ''ubuntu''
                 else ''unknown'')))"

section \<open>The runner\<close>

definition sq :: string where
  "sq = [CHR 0x27]"

definition dq :: string where
  "dq = [CHR 0x22]"

definition nl :: string where
  "nl = [CHR 0x0A]"

text \<open>
  \<open>if x: f(x) else: d\<close> for an optional string \<open>x\<close>: the first branch is taken
  when \<open>x\<close> is neither \<open>None\<close> nor empty.
\<close>

fun if_given :: "string option \<Rightarrow> (string \<Rightarrow> 'a) \<Rightarrow> 'a \<Rightarrow> 'a" where
  "if_given None f d = d"
| "if_given (Some s) f d = (if s \<noteq> [] then f s else d)"

text \<open>How an f-string shows an optional string.\<close>

fun fmt :: "string option \<Rightarrow> string" where
  "fmt None = ''None''"
| "fmt (Some s) = s"

text \<open>\<open>os.path.join\<close> of two components (\<open>posixpath\<close>).\<close>

definition path_join :: "string \<Rightarrow> string \<Rightarrow> string" where
  "path_join a b =
     (if prefix ''/'' b then b
      else if a = [] \<or> suffix ''/'' a then a @ b
      else a @ ''/'' @ b)"

definition isdir :: "env \<Rightarrow> string \<Rightarrow> bool" where
  "isdir e p = (case fs e p of Some (Directory es) \<Rightarrow> True | _ \<Rightarrow> False)"

definition isfile :: "env \<Rightarrow> string \<Rightarrow> bool" where
  "isfile e p = (case fs e p of Some (Regular m) \<Rightarrow> True | _ \<Rightarrow> False)"

definition exists :: "env \<Rightarrow> string \<Rightarrow> bool" where
  "exists e p = (fs e p \<noteq> None)"

text \<open>\<open>os.listdir\<close>; the source calls it on directories only.\<close>

definition listdir :: "env \<Rightarrow> string \<Rightarrow> string list" where
  "listdir e p = (case fs e p of Some (Directory es) \<Rightarrow> es | _ \<Rightarrow> [])"

definition S_IXUSR :: nat where
  "S_IXUSR = 64"

definition is_executable_file :: "env \<Rightarrow> string \<Rightarrow> bool" where
  "is_executable_file e path =
     (case fs e path of
        Some (Regular st_mode) \<Rightarrow> (st_mode AND S_IXUSR) \<noteq> 0
      | _ \<Rightarrow> False)"

text \<open>
  The body of the loop over the sorted directory entries, and the loop. The parameter
  \<open>run_arg\<close> of the source is called \<open>target\<close> here.
\<close>

definition run_item :: "env \<Rightarrow> args \<Rightarrow> string \<Rightarrow> bool \<Rightarrow> string \<Rightarrow> event list" where
  "run_item e a target is_dry_run item =
     (let full_path = path_join target item in
      if isfile e full_path \<and> is_executable_file e full_path then
        (if verbose a then [Print (''Found executable script: '' @ full_path)] else []) @
        (if is_dry_run then [Print (''[DRYRUN] Would run: '' @ sq @ full_path @ sq)]
         else [Print (''Running: '' @ sq @ full_path @ sq), Subprocess [full_path]])
      else [])"

primrec run_items :: "env \<Rightarrow> args \<Rightarrow> string \<Rightarrow> bool \<Rightarrow> string list \<Rightarrow> event list" where
  "run_items e a target is_dry_run [] = []"
| "run_items e a target is_dry_run (item # items) =
     run_item e a target is_dry_run item @ run_items e a target is_dry_run items"

definition run_commands :: "env \<Rightarrow> args \<Rightarrow> string \<Rightarrow> bool \<Rightarrow> event list" where
  "run_commands e a target is_dry_run =
     (if isdir e target then
        run_items e a target is_dry_run (sort (listdir e target))
      else if isfile e target then
        (if is_executable_file e target then
           (if is_dry_run then [Print (''[DRYRUN] Would run file: '' @ sq @ target @ sq)]
            else [Print (''Running file: '' @ sq @ target @ sq), Subprocess [target]])
         else
           (if verbose a
            then [Print (sq @ target @ sq @
                    '' is a file but probably not executable. Attempting to run in shell.'')]
            else []) @
           (if is_dry_run then [Print (''[DRYRUN] Would run via shell: '' @ sq @ target @ sq)]
            else [Subprocess [''bash'', target]]))
      else
        (if is_dry_run then [Print (''[DRYRUN] Would run command: '' @ target)]
         else [Shell target]))"

section \<open>The dependency advisor\<close>

definition commands_to_check :: "string list" where
  "commands_to_check = [''systemctl'', ''bash'', ''nano'']"

primrec check_loop :: "env \<Rightarrow> string list \<Rightarrow> event list" where
  "check_loop e [] = []"
| "check_loop e (cmd # cmds) =
     if_given (which e cmd)
       (\<lambda>cmd_path. [Print (''[OK]   '' @ cmd @ '' found at '' @ cmd_path)])
       [Print (''[MISS] '' @ cmd @ '' NOT found'')]
     @ check_loop e cmds"

definition check_dependencies :: "env \<Rightarrow> bool \<Rightarrow> event list" where
  "check_dependencies e v =
     check_loop e commands_to_check @
     (if v then [Print ''Dependency check finished.''] else [])"

primrec missing_loop :: "env \<Rightarrow> string list \<Rightarrow> string list" where
  "missing_loop e [] = []"
| "missing_loop e (cmd # cmds) =
     (if \<not> truthy (which e cmd) then [cmd] else []) @ missing_loop e cmds"

primrec suggest_loop :: "string \<Rightarrow> string list \<Rightarrow> event list" where
  "suggest_loop pkgmgr [] = []"
| "suggest_loop pkgmgr (cmd # cmds) =
     Print (''  '' @ pkgmgr @ '' '' @ cmd) # suggest_loop pkgmgr cmds"

definition suggest_install_script :: "env \<Rightarrow> bool \<Rightarrow> event list" where
  "suggest_install_script e v =
     (let user_os = detect_os e ''auto'';
          missing_cmds = missing_loop e [''systemctl'', ''bash'', ''nano'']
      in if missing_cmds = [] then [Print ''All essential commands appear to be installed.'']
         else
           (let pkgmgr =
                  (if user_os = ''arch'' then ''sudo pacman -S''
                   else if user_os = ''ubuntu'' then ''sudo apt-get install''
                   else ''<your_package_manager_install_command>'')
            in [Print ''Suggested installation commands (based on detected OS):''] @
               suggest_loop pkgmgr missing_cmds @
               (if v then [Print ''Suggested install script generation completed.''] else [])))"

section \<open>The unit file manager\<close>

definition systemd_user_dir :: "env \<Rightarrow> string" where
  "systemd_user_dir e =
     path_join (path_join (path_join (home e) ''.config'') ''systemd'') ''user''"

definition service_file :: "env \<Rightarrow> string" where
  "service_file e = path_join (systemd_user_dir e) ''daily_by_hostname.service''"

definition timer_file :: "env \<Rightarrow> string" where
  "timer_file e = path_join (systemd_user_dir e) ''daily_by_hostname.timer''"

definition description :: "env \<Rightarrow> args \<Rightarrow> string" where
  "description e a =
     if_given (Description a) (\<lambda>d. d) (''Daily User Run of '' @ script_path e)"

definition on_calendar :: "args \<Rightarrow> string" where
  "on_calendar a = if_given (OnCalendar a) (\<lambda>c. c) ''*-*-* 14:00:00''"

definition persistent_value :: "args \<Rightarrow> string" where
  "persistent_value a =
     (let persistent_value = (case Persistent a of None \<Rightarrow> ''true'' | Some p \<Rightarrow> p)
      in if persistent_value \<notin> set [''true'', ''false''] then ''true''
         else persistent_value)"

definition service_content :: "env \<Rightarrow> args \<Rightarrow> string list" where
  "service_content e a =
     [''[Unit]'',
      ''Description='' @ description e a,
      ''After=network.target'',
      [],
      ''[Service]'',
      ''Type=oneshot'',
      ''ExecStart=/usr/bin/env python3 '' @ script_path e @ '' --run '' @
         dq @ fmt (run_arg a) @ dq,
      [],
      ''# End of service file'' @ nl]"

definition timer_content :: "env \<Rightarrow> args \<Rightarrow> string list" where
  "timer_content e a =
     [''[Unit]'',
      ''Description=Timer for: '' @ description e a,
      [],
      ''[Timer]'',
      ''OnCalendar='' @ on_calendar a,
      ''Persistent='' @ persistent_value a,
      [],
      ''[Install]'',
      ''WantedBy=default.target'',
      [],
      ''# End of timer file'' @ nl]"

definition create_service_and_timer :: "env \<Rightarrow> args \<Rightarrow> event list" where
  "create_service_and_timer e a =
     [Makedirs (systemd_user_dir e),
      Write_file (service_file e) (str_join nl (service_content e a)),
      Write_file (timer_file e) (str_join nl (timer_content e a)),
      Print (''Created service file: '' @ service_file e),
      Print (''Created timer file:   '' @ timer_file e),
      Print ''You can now enable and start the timer with:'',
      Print ''  $ systemctl --user enable daily_by_hostname.timer'',
      Print ''  $ systemctl --user start daily_by_hostname.timer'']"

definition edit_file_in_editor :: "env \<Rightarrow> string \<Rightarrow> event list" where
  "edit_file_in_editor e file_path =
     (let editor = (case editor_var e of None \<Rightarrow> [] | Some v \<Rightarrow> v) in
      if editor = [] then
        (case find (\<lambda>candidate. truthy (which e candidate)) [''nano'', ''vi''] of
           None \<Rightarrow> [Print ''No suitable editor found! Please set $EDITOR.'']
         | Some candidate \<Rightarrow> [Subprocess [candidate, file_path]])
      else [Subprocess [editor, file_path]])"

text \<open>
  A handler returns what it did and, when it ended the process with \<open>sys.exit\<close>, the
  exit status.
\<close>

definition handle_configs :: "env \<Rightarrow> args \<Rightarrow> event list \<times> int option" where
  "handle_configs e a =
     (if configs a = Some ''paths'' then
        ([Print (service_file e), Print (timer_file e)], None)
      else if configs a = Some ''create'' then
        (if \<not> truthy (run_arg a)
         then ([Print ''Error: --configs create requires --run-arg''], Some 1)
         else (create_service_and_timer e a, None))
      else if configs a = Some ''edit-service'' then
        (if \<not> exists e (service_file e)
         then ([Print (''Service file not found: '' @ service_file e)], None)
         else (edit_file_in_editor e (service_file e), None))
      else if configs a = Some ''edit-timer'' then
        (if \<not> exists e (timer_file e)
         then ([Print (''Timer file not found: '' @ timer_file e)], None)
         else (edit_file_in_editor e (timer_file e), None))
      else if configs a = Some ''delete'' then
        (let removed = exists e (service_file e);
             e' = (if removed then e\<lparr>fs := (fs e)(service_file e := None)\<rparr> else e)
         in ((if removed
              then [Remove (service_file e),
                    Print (''Deleted service file: '' @ service_file e)]
              else []) @
             (if exists e' (timer_file e)
              then [Remove (timer_file e),
                    Print (''Deleted timer file: '' @ timer_file e)]
              else []), None))
      else ([], None))"

definition handle_systemd_install :: "args \<Rightarrow> event list" where
  "handle_systemd_install a =
     [Print (''You requested to install a systemd timer: '' @ fmt (install_systemd_timer a)),
      Print ''But the recommended way is to run: --configs create, then enable and start.'']"

section \<open>The scheduler control bridge\<close>

definition user_cmd :: "args \<Rightarrow> string list option" where
  "user_cmd a =
     (if status a then
        Some [''systemctl'', ''--user'', ''status'', ''daily_by_hostname.timer'']
      else if enable_and_start a then
        Some [''systemctl'', ''--user'', ''enable'', ''--now'', ''daily_by_hostname.timer'']
      else if disable_and_stop a then
        Some [''systemctl'', ''--user'', ''disable'', ''--now'', ''daily_by_hostname.timer'']
      else if logs a then
        Some [''journalctl'', ''--user-unit'', ''daily_by_hostname.service'',
              ''--since'', ''today'']
      else None)"

definition handle_systemd_timer_actions :: "args \<Rightarrow> event list" where
  "handle_systemd_timer_actions a =
     (case user_cmd a of
        None \<Rightarrow> []
      | Some c \<Rightarrow>
          (if c \<noteq> [] then [Print (''Running: '' @ str_join '' '' c), Subprocess c]
           else []))"

section \<open>The dispatcher\<close>

text \<open>
  The body of \<open>main\<close> after \<open>parse_args\<close>: what the invocation does and the exit status
  of the process (0 when \<open>main\<close> returns).
\<close>

definition main_dispatch :: "env \<Rightarrow> args \<Rightarrow> event list \<times> int" where
  "main_dispatch e a =
     (let used_os = detect_os e (os a);
          notice = (if verbose a then [Print (''Detected/Selected OS: '' @ used_os)] else [])
      in
      if dependencies a = Some ''check'' then
        (notice @ check_dependencies e (verbose a), 0)
      else if dependencies a = Some ''script'' then
        (notice @ suggest_install_script e (verbose a), 0)
      else if truthy (configs a) then
        (case handle_configs e a of
           (evs, Some code) \<Rightarrow> (notice @ evs, code)
         | (evs, None) \<Rightarrow> (notice @ evs, 0))
      else if truthy (install_systemd_timer a) then
        (notice @ handle_systemd_install a, 0)
      else if status a \<or> enable_and_start a \<or> disable_and_stop a \<or> logs a then
        (notice @ handle_systemd_timer_actions a, 0)
      else
        (notice @
         if_given (run_arg a) (\<lambda>r. run_commands e a r False)
           (if_given (dry_run_arg a) (\<lambda>d. run_commands e a d True)
              (if verbose a
               then [Print ''No run or dry-run argument provided. Doing nothing.'']
               else [])), 0))"

section \<open>The command line\<close>

text \<open>
  The options \<open>main\<close> declares on its \<open>ArgumentParser\<close>, one constructor for each
  \<open>add_argument\<close> call, in the order of the source.
\<close>

datatype opt =
    Opt_os | Opt_run | Opt_dry_run | Opt_verbose | Opt_dependencies | Opt_configs
  | Opt_run_arg | Opt_install_systemd_timer | Opt_Persistent | Opt_OnCalendar
  | Opt_Description | Opt_status | Opt_enable_and_start | Opt_disable_and_stop | Opt_logs

definition option_strings :: "(string \<times> opt) list" where
  "option_strings =
     [(''--os'', Opt_os),
      (''-f'', Opt_run), (''--run'', Opt_run),
      (''-n'', Opt_dry_run), (''--dry-run'', Opt_dry_run),
      (''-v'', Opt_verbose), (''--verbose'', Opt_verbose),
      (''--dependencies'', Opt_dependencies),
      (''--configs'', Opt_configs),
      (''--run-arg'', Opt_run_arg),
      (''--install-systemd-timer'', Opt_install_systemd_timer),
      (''--Persistent'', Opt_Persistent),
      (''--OnCalendar'', Opt_OnCalendar),
      (''--Description'', Opt_Description),
      (''--status'', Opt_status),
      (''--enable_and_start'', Opt_enable_and_start),
      (''--disable_and_stop'', Opt_disable_and_stop),
      (''--logs'', Opt_logs)]"

text \<open>The options with \<open>action="store_true"\<close> take no value; the others take one.\<close>

fun store_true :: "opt \<Rightarrow> bool" where
  "store_true Opt_verbose = True"
| "store_true Opt_status = True"
| "store_true Opt_enable_and_start = True"
| "store_true Opt_disable_and_stop = True"
| "store_true Opt_logs = True"
| "store_true x = False"

fun choices :: "opt \<Rightarrow> string list option" where
  "choices Opt_os = Some [''auto'', ''arch'', ''ubuntu'']"
| "choices Opt_dependencies = Some [''check'', ''script'']"
| "choices Opt_configs =
     Some [''create'', ''paths'', ''edit-timer'', ''edit-service'', ''delete'']"
| "choices Opt_install_systemd_timer = Some [''daily'', ''hourly'']"
| "choices x = None"

text \<open>
  The one \<open>add_mutually_exclusive_group\<close> of the source holds \<open>-f/--run\<close> and
  \<open>-n/--dry-run\<close>: each conflicts with the other, and no other option conflicts with
  anything.
\<close>

fun conflicts :: "opt \<Rightarrow> opt list" where
  "conflicts Opt_run = [Opt_dry_run]"
| "conflicts Opt_dry_run = [Opt_run]"
| "conflicts x = []"

text \<open>
  Storing a value in the destination of an option. \<open>Opt_run\<close> has \<open>dest="run_arg"\<close>, and
  the destination \<open>argparse\<close> derives from \<open>--run-arg\<close> is \<open>run_arg\<close> too.
\<close>

fun store :: "opt \<Rightarrow> string \<Rightarrow> args \<Rightarrow> args" where
  "store Opt_os v a = a\<lparr>os := v\<rparr>"
| "store Opt_run v a = a\<lparr>run_arg := Some v\<rparr>"
| "store Opt_dry_run v a = a\<lparr>dry_run_arg := Some v\<rparr>"
| "store Opt_dependencies v a = a\<lparr>dependencies := Some v\<rparr>"
| "store Opt_configs v a = a\<lparr>configs := Some v\<rparr>"
| "store Opt_run_arg v a = a\<lparr>run_arg := Some v\<rparr>"
| "store Opt_install_systemd_timer v a = a\<lparr>install_systemd_timer := Some v\<rparr>"
| "store Opt_Persistent v a = a\<lparr>Persistent := Some v\<rparr>"
| "store Opt_OnCalendar v a = a\<lparr>OnCalendar := Some v\<rparr>"
| "store Opt_Description v a = a\<lparr>Description := Some v\<rparr>"
| "store x v a = a"

fun set_true :: "opt \<Rightarrow> args \<Rightarrow> args" where
  "set_true Opt_verbose a = a\<lparr>verbose := True\<rparr>"
| "set_true Opt_status a = a\<lparr>status := True\<rparr>"
| "set_true Opt_enable_and_start a = a\<lparr>enable_and_start := True\<rparr>"
| "set_true Opt_disable_and_stop a = a\<lparr>disable_and_stop := True\<rparr>"
| "set_true Opt_logs a = a\<lparr>logs := True\<rparr>"
| "set_true x a = a"

text \<open>The namespace before any option is read: the declared defaults.\<close>

definition defaults :: args where
  "defaults =
     \<lparr>os = ''auto'', run_arg = None, dry_run_arg = None, verbose = False,
      dependencies = None, configs = None, install_systemd_timer = None,
      Persistent = None, OnCalendar = None, Description = None,
      status = False, enable_and_start = False, disable_and_stop = False, logs = False\<rparr>"

text \<open>
  \<open>parse_args\<close> on the command lines whose every word is one of the declared option
  strings, written out in full, or a word that does not begin with \<open>-\<close>. Other words
  (abbreviated options, \<open>--opt=value\<close>, \<open>-h\<close>, \<open>--\<close>, negative numbers) are outside
  this model: \<open>Not_modelled\<close>. A usage error ends the process with status 2.

  The words are read from left to right. A word that is no option is a positional
  argument, of which the parser declares none: a usage error. An option that takes a value
  needs a next word that is no option; the value must be among the choices, when the option
  has choices; and an option that conflicts with an option seen before is refused.
\<close>

datatype parse_result = Parsed args | Usage_error | Not_modelled

definition in_fragment :: "string \<Rightarrow> bool" where
  "in_fragment w = (map_of option_strings w \<noteq> None \<or> \<not> prefix ''-'' w)"

fun parse_loop :: "string list \<Rightarrow> opt list \<Rightarrow> args \<Rightarrow> args option" where
  "parse_loop [] seen a = Some a"
| "parse_loop (w # ws) seen a =
     (case map_of option_strings w of
        None \<Rightarrow> None
      | Some opt \<Rightarrow>
          if store_true opt then
            (if \<exists>c \<in> set (conflicts opt). c \<in> set seen then None
             else parse_loop ws (opt # seen) (set_true opt a))
          else
            (case ws of
               [] \<Rightarrow> None
             | v # rest \<Rightarrow>
                 if map_of option_strings v \<noteq> None then None
                 else if (case choices opt of None \<Rightarrow> False | Some cs \<Rightarrow> v \<notin> set cs)
                   then None
                 else if \<exists>c \<in> set (conflicts opt). c \<in> set seen then None
                 else parse_loop rest (opt # seen) (store opt v a)))"

definition parse_args :: "string list \<Rightarrow> parse_result" where
  "parse_args argv =
     (if \<forall>w \<in> set argv. in_fragment w then
        (case parse_loop argv [] defaults of
           None \<Rightarrow> Usage_error
         | Some a \<Rightarrow> Parsed a)
      else Not_modelled)"

text \<open>
  The whole of \<open>main\<close> on the words after the program name: \<open>None\<close> outside the
  model of the parser, the events and the exit status otherwise.
\<close>

definition main :: "env \<Rightarrow> string list \<Rightarrow> (event list \<times> int) option" where
  "main e argv =
     (case parse_args argv of
        Not_modelled \<Rightarrow> None
      | Usage_error \<Rightarrow> Some ([], 2)
      | Parsed a \<Rightarrow> Some (main_dispatch e a))"

section \<open>Notions of the specification and example hosts\<close>

text \<open>
  The lines of a text: \<open>str.split("\n")\<close>. A dry-run intent line starts with
  \<open>[DRYRUN] Would run\<close>; the two notes the runner prints only when verbose are the
  other lines it can print.
\<close>

fun split_lines :: "string \<Rightarrow> string list" where
  "split_lines [] = [[]]"
| "split_lines (c # cs) =
     (if c = CHR 0x0A then [] # split_lines cs
      else (case split_lines cs of
              [] \<Rightarrow> [[c]]
            | l # ls \<Rightarrow> (c # l) # ls))"



text \<open>
  A case-insensitive occurrence of a marker in a text: some substring of the text is the
  marker up to the case of its letters.
\<close>

definition occurs_ignoring_case :: "string \<Rightarrow> string \<Rightarrow> bool" where
  "occurs_ignoring_case marker f =
     (\<exists>pre x post. f = pre @ x @ post \<and> lower x = lower marker)"

text \<open>
  A host with no \<open>/etc/os-release\<close>, nothing on the search path and an empty file
  system; a host whose \<open>/etc/os-release\<close> names both distributions, with \<open>bash\<close>
  installed and a directory \<open>/d\<close> holding an executable file, a file that is not
  executable and a sub-directory; and a host whose \<open>/etc/os-release\<close> names Ubuntu only.
\<close>

definition bare_host :: env where
  "bare_host =
     \<lparr>os_release = None, which = (\<lambda>cmd. None), fs = (\<lambda>p. None),
      home = ''/home/u'', script_path = ''/opt/tool.py'', editor_var = None\<rparr>"

definition arch_host :: env where
  "arch_host =
     \<lparr>os_release = Some ''NAME=Arch Linux (not Ubuntu)'',
      which = (\<lambda>cmd. if cmd = ''bash'' then Some ''/bin/bash'' else None),
      fs = map_of
        [(''/d'', Directory [''b.sh'', ''sub'', ''a.txt'']),
         (''/d/b.sh'', Regular 493),
         (''/d/a.txt'', Regular 420),
         (''/d/sub'', Directory [])],
      home = ''/home/u'', script_path = ''/opt/tool.py'', editor_var = None\<rparr>"


text \<open>
  The line the dispatcher prints first when verbose, and the condition under which a
  branch before run and dry-run is taken.
\<close>

definition notice :: "env \<Rightarrow> args \<Rightarrow> event list" where
  "notice e a =
     (if verbose a then [Print (''Detected/Selected OS: '' @ detect_os e (os a))] else [])"

definition higher_branch :: "args \<Rightarrow> bool" where
  "higher_branch a =
     (dependencies a = Some ''check'' \<or> dependencies a = Some ''script'' \<or>
      truthy (configs a) \<or> truthy (install_systemd_timer a) \<or>
      status a \<or> enable_and_start a \<or> disable_and_stop a \<or> logs a)"

section \<open>The scheduler intents\<close>

lemma parse_status_enable:
  "parse_args [''--status'', ''--enable_and_start''] =
     Parsed (defaults\<lparr>status := True, enable_and_start := True\<rparr>)"
  by (simp add: parse_args_def in_fragment_def option_strings_def)

text \<open>
  C1. The claim: at most one of the four scheduler intents may be true, an invocation
  that sets two being rejected by the argument grouping. The header of the source calls
  \<open>--status\<close>, \<open>--enable_and_start\<close> and \<open>--disable_and_stop\<close> exclusive options, and
  \<open>--run\<close> and \<open>--dry-run\<close> are put in a mutually exclusive group, but the four
  intents are declared outside any group. On the command line
  \<open>--status --enable_and_start\<close> the parser accepts both, and the process runs the
  status command and exits with status 0.
\<close>

theorem two_intents_accepted:
  "parse_args [''--status'', ''--enable_and_start''] =
     Parsed (defaults\<lparr>status := True, enable_and_start := True\<rparr>)
   \<and> main e [''--status'', ''--enable_and_start''] =
     Some ([Print ''Running: systemctl --user status daily_by_hostname.timer'',
            Subprocess [''systemctl'', ''--user'', ''status'', ''daily_by_hostname.timer'']],
           0)"
  by (simp add: main_def parse_status_enable main_dispatch_def defaults_def
      handle_systemd_timer_actions_def user_cmd_def)

theorem two_intents_accepted_witness:
  "main bare_host [''--status'', ''--enable_and_start''] =
     Some ([Print ''Running: systemctl --user status daily_by_hostname.timer'',
            Subprocess [''systemctl'', ''--user'', ''status'', ''daily_by_hostname.timer'']],
           0)"
  using two_intents_accepted [of bare_host] by simp

text \<open>
  C10. When several of the four intent flags are set, the handler runs exactly one
  command, the first set flag in the order status, enable_and_start, disable_and_stop,
  logs, whatever the later flags are; with none set it does nothing.
\<close>

theorem timer_actions_priority:
  "(status a \<longrightarrow> handle_systemd_timer_actions a =
      [Print ''Running: systemctl --user status daily_by_hostname.timer'',
       Subprocess [''systemctl'', ''--user'', ''status'', ''daily_by_hostname.timer'']])
   \<and> (\<not> status a \<and> enable_and_start a \<longrightarrow> handle_systemd_timer_actions a =
      [Print ''Running: systemctl --user enable --now daily_by_hostname.timer'',
       Subprocess [''systemctl'', ''--user'', ''enable'', ''--now'',
                   ''daily_by_hostname.timer'']])
   \<and> (\<not> status a \<and> \<not> enable_and_start a \<and> disable_and_stop a \<longrightarrow>
      handle_systemd_timer_actions a =
      [Print ''Running: systemctl --user disable --now daily_by_hostname.timer'',
       Subprocess [''systemctl'', ''--user'', ''disable'', ''--now'',
                   ''daily_by_hostname.timer'']])
   \<and> (\<not> status a \<and> \<not> enable_and_start a \<and> \<not> disable_and_stop a \<and> logs a \<longrightarrow>
      handle_systemd_timer_actions a =
      [Print ''Running: journalctl --user-unit daily_by_hostname.service --since today'',
       Subprocess [''journalctl'', ''--user-unit'', ''daily_by_hostname.service'',
                   ''--since'', ''today'']])
   \<and> (\<not> status a \<and> \<not> enable_and_start a \<and> \<not> disable_and_stop a \<and> \<not> logs a \<longrightarrow>
      handle_systemd_timer_actions a = [])
   \<and> length (filter is_spawn (handle_systemd_timer_actions a)) =
      (if status a \<or> enable_and_start a \<or> disable_and_stop a \<or> logs a then 1 else 0)"
  by (simp add: handle_systemd_timer_actions_def user_cmd_def)

theorem timer_actions_priority_witness:
  "handle_systemd_timer_actions (defaults\<lparr>status := True, logs := True\<rparr>) =
      [Print ''Running: systemctl --user status daily_by_hostname.timer'',
       Subprocess [''systemctl'', ''--user'', ''status'', ''daily_by_hostname.timer'']]
   \<and> handle_systemd_timer_actions
        (defaults\<lparr>enable_and_start := True, disable_and_stop := True, logs := True\<rparr>) =
      [Print ''Running: systemctl --user enable --now daily_by_hostname.timer'',
       Subprocess [''systemctl'', ''--user'', ''enable'', ''--now'',
                   ''daily_by_hostname.timer'']]
   \<and> handle_systemd_timer_actions (defaults\<lparr>disable_and_stop := True, logs := True\<rparr>) =
      [Print ''Running: systemctl --user disable --now daily_by_hostname.timer'',
       Subprocess [''systemctl'', ''--user'', ''disable'', ''--now'',
                   ''daily_by_hostname.timer'']]
   \<and> handle_systemd_timer_actions (defaults\<lparr>logs := True\<rparr>) =
      [Print ''Running: journalctl --user-unit daily_by_hostname.service --since today'',
       Subprocess [''journalctl'', ''--user-unit'', ''daily_by_hostname.service'',
                   ''--since'', ''today'']]
   \<and> handle_systemd_timer_actions defaults = []
   \<and> length (filter is_spawn
        (handle_systemd_timer_actions (defaults\<lparr>status := True, logs := True\<rparr>))) = 1"
  using timer_actions_priority [of "defaults\<lparr>status := True, logs := True\<rparr>"]
    timer_actions_priority
      [of "defaults\<lparr>enable_and_start := True, disable_and_stop := True, logs := True\<rparr>"]
    timer_actions_priority [of "defaults\<lparr>disable_and_stop := True, logs := True\<rparr>"]
    timer_actions_priority [of "defaults\<lparr>logs := True\<rparr>"]
    timer_actions_priority [of defaults]
  by (simp add: defaults_def)

section \<open>The dispatch order\<close>

text \<open>
  The branches of the dispatcher, one lemma each: a branch is taken when the branches
  before it are not, and its result is the OS notice (when verbose) followed by what its
  handler does, with nothing else printed.
\<close>

lemma dispatch_check:
  "dependencies a = Some ''check'' \<Longrightarrow>
   main_dispatch e a = (notice e a @ check_dependencies e (verbose a), 0)"
  by (simp add: main_dispatch_def notice_def)

lemma dispatch_script:
  "dependencies a = Some ''script'' \<Longrightarrow>
   main_dispatch e a = (notice e a @ suggest_install_script e (verbose a), 0)"
  by (simp add: main_dispatch_def notice_def)

lemma dispatch_configs:
  "dependencies a \<noteq> Some ''check'' \<Longrightarrow> dependencies a \<noteq> Some ''script'' \<Longrightarrow>
   truthy (configs a) \<Longrightarrow>
   main_dispatch e a =
     (notice e a @ fst (handle_configs e a),
      case snd (handle_configs e a) of None \<Rightarrow> 0 | Some code \<Rightarrow> code)"
  by (simp add: main_dispatch_def notice_def split: prod.splits option.splits)

lemma dispatch_install:
  "dependencies a \<noteq> Some ''check'' \<Longrightarrow> dependencies a \<noteq> Some ''script'' \<Longrightarrow>
   \<not> truthy (configs a) \<Longrightarrow> truthy (install_systemd_timer a) \<Longrightarrow>
   main_dispatch e a = (notice e a @ handle_systemd_install a, 0)"
  by (simp add: main_dispatch_def notice_def)

lemma dispatch_timer_actions:
  "dependencies a \<noteq> Some ''check'' \<Longrightarrow> dependencies a \<noteq> Some ''script'' \<Longrightarrow>
   \<not> truthy (configs a) \<Longrightarrow> \<not> truthy (install_systemd_timer a) \<Longrightarrow>
   status a \<or> enable_and_start a \<or> disable_and_stop a \<or> logs a \<Longrightarrow>
   main_dispatch e a = (notice e a @ handle_systemd_timer_actions a, 0)"
  by (simp add: main_dispatch_def notice_def)

lemma dispatch_run:
  "\<not> higher_branch a \<Longrightarrow>
   main_dispatch e a =
     (notice e a @
      if_given (run_arg a) (\<lambda>r. run_commands e a r False)
        (if_given (dry_run_arg a) (\<lambda>d. run_commands e a d True)
           (if verbose a
            then [Print ''No run or dry-run argument provided. Doing nothing.'']
            else [])), 0)"
  by (simp add: main_dispatch_def notice_def higher_branch_def)

text \<open>
  Under a higher branch the value of \<open>--dry-run\<close> changes nothing, and the value stored
  in \<open>run_arg\<close> changes nothing unless the branch is \<open>configs create\<close>.
\<close>

lemma handle_configs_dry_run_arg:
  "handle_configs e (a\<lparr>dry_run_arg := d\<rparr>) = handle_configs e a"
  by (simp add: handle_configs_def create_service_and_timer_def service_content_def
      timer_content_def description_def on_calendar_def persistent_value_def)

lemma handle_configs_run_arg:
  "configs a \<noteq> Some ''create'' \<Longrightarrow>
   handle_configs e (a\<lparr>run_arg := r\<rparr>) = handle_configs e a"
  by (simp add: handle_configs_def)

lemma higher_branch_ignores_dry_run:
  "higher_branch a \<Longrightarrow> main_dispatch e (a\<lparr>dry_run_arg := d\<rparr>) = main_dispatch e a"
  by (auto simp add: main_dispatch_def higher_branch_def handle_configs_dry_run_arg
      handle_systemd_install_def handle_systemd_timer_actions_def user_cmd_def)

lemma higher_branch_ignores_run:
  "higher_branch a \<Longrightarrow>
   dependencies a = Some ''check'' \<or> dependencies a = Some ''script'' \<or>
   configs a \<noteq> Some ''create'' \<Longrightarrow>
   main_dispatch e (a\<lparr>run_arg := r\<rparr>) = main_dispatch e a"
  by (auto simp add: main_dispatch_def higher_branch_def handle_configs_run_arg
      handle_systemd_install_def handle_systemd_timer_actions_def user_cmd_def)

lemma parse_configs_create_run:
  "parse_args [''--configs'', ''create'', ''--run'', ''/tmp/x''] =
     Parsed (defaults\<lparr>configs := Some ''create'', run_arg := Some ''/tmp/x''\<rparr>)"
  by (simp add: parse_args_def in_fragment_def option_strings_def)

lemma parse_configs_create:
  "parse_args [''--configs'', ''create''] = Parsed (defaults\<lparr>configs := Some ''create''\<rparr>)"
  by (simp add: parse_args_def in_fragment_def option_strings_def)

lemma parse_configs_create_empty:
  "parse_args [''--configs'', ''create'', ''--run-arg'', []] =
     Parsed (defaults\<lparr>configs := Some ''create'', run_arg := Some []\<rparr>)"
  by (simp add: parse_args_def in_fragment_def option_strings_def)

text \<open>
  C2. The claim: one branch is taken, by the fixed priority, and \<open>run\<close> and
  \<open>dry-run\<close> are ignored without a warning under a higher branch. The priority holds
  (the lemmas above), but \<open>--run\<close> is not ignored under \<open>configs create\<close>: it is
  declared with \<open>dest="run_arg"\<close>, the destination of \<open>--run-arg\<close> too, so
  \<open>--configs create --run /tmp/x\<close> creates the unit files for \<open>/tmp/x\<close> and exits
  with status 0, where \<open>--configs create\<close> alone prints the error and exits with
  status 1.
\<close>

theorem run_flag_feeds_configs_create:
  "main e [''--configs'', ''create'', ''--run'', ''/tmp/x''] =
     Some (create_service_and_timer e
             (defaults\<lparr>configs := Some ''create'', run_arg := Some ''/tmp/x''\<rparr>), 0)
   \<and> main e [''--configs'', ''create''] =
     Some ([Print ''Error: --configs create requires --run-arg''], 1)"
  by (simp add: main_def parse_configs_create_run parse_configs_create main_dispatch_def
      defaults_def handle_configs_def)

theorem run_flag_feeds_configs_create_witness:
  "main bare_host [''--configs'', ''create'', ''--run'', ''/tmp/x''] =
     Some (create_service_and_timer bare_host
             (defaults\<lparr>configs := Some ''create'', run_arg := Some ''/tmp/x''\<rparr>), 0)
   \<and> main bare_host [''--configs'', ''create''] =
     Some ([Print ''Error: --configs create requires --run-arg''], 1)"
  using run_flag_feeds_configs_create [of bare_host] by simp

section \<open>The validation of configs create\<close>



text \<open>
  C9. An empty \<open>run_arg\<close> is treated as a missing one: the test is the truth value of
  the string, so \<open>configs create\<close> prints the error and ends with status 1, and nothing
  is written.
\<close>

theorem configs_create_empty_run_arg:
  "handle_configs e (a\<lparr>configs := Some ''create'', run_arg := Some []\<rparr>) =
     ([Print ''Error: --configs create requires --run-arg''], Some 1)
   \<and> handle_configs e (a\<lparr>configs := Some ''create'', run_arg := Some []\<rparr>) =
     handle_configs e (a\<lparr>configs := Some ''create'', run_arg := None\<rparr>)
   \<and> (dependencies a \<noteq> Some ''check'' \<and> dependencies a \<noteq> Some ''script'' \<longrightarrow>
      main_dispatch e (a\<lparr>configs := Some ''create'', run_arg := Some []\<rparr>) =
        (notice e a @ [Print ''Error: --configs create requires --run-arg''], 1))
   \<and> main e [''--configs'', ''create'', ''--run-arg'', []] =
     Some ([Print ''Error: --configs create requires --run-arg''], 1)"
  by (simp add: main_def parse_configs_create_empty main_dispatch_def notice_def
      defaults_def handle_configs_def)

theorem configs_create_empty_run_arg_witness:
  "main_dispatch bare_host (defaults\<lparr>configs := Some ''create'', run_arg := Some []\<rparr>) =
     ([Print ''Error: --configs create requires --run-arg''], 1)
   \<and> main bare_host [''--configs'', ''create'', ''--run-arg'', []] =
     Some ([Print ''Error: --configs create requires --run-arg''], 1)"
  using configs_create_empty_run_arg [of bare_host defaults]
  by (simp add: defaults_def notice_def)

section \<open>OS detection and the dependency advisor\<close>

text \<open>\<open>contains\<close> is the substring test, and on a lowered text the case-insensitive one.\<close>

lemma contains_iff: "contains m s \<longleftrightarrow> (\<exists>pre post. s = pre @ m @ post)"
proof (induction s)
  case Nil
  show ?case by simp
next
  case (Cons c cs)
  note IH = Cons.IH
  show ?case
  proof
    assume "contains m (c # cs)"
    then consider "prefix m (c # cs)" | "contains m cs" by auto
    then show "\<exists>pre post. c # cs = pre @ m @ post"
    proof cases
      case 1
      then obtain post where "c # cs = m @ post" by (auto simp: prefix_def)
      then have "c # cs = [] @ m @ post" by simp
      then show ?thesis by blast
    next
      case 2
      with IH obtain pre post where "cs = pre @ m @ post" by blast
      then have "c # cs = (c # pre) @ m @ post" by simp
      then show ?thesis by blast
    qed
  next
    assume "\<exists>pre post. c # cs = pre @ m @ post"
    then obtain pre post where eq: "c # cs = pre @ m @ post" by blast
    show "contains m (c # cs)"
    proof (cases pre)
      case Nil
      with eq have "prefix m (c # cs)" by (simp add: prefix_def)
      then show ?thesis by simp
    next
      case (Cons p pre')
      with eq have "cs = pre' @ m @ post" by simp
      with IH have "contains m cs" by blast
      then show ?thesis by simp
    qed
  qed
qed

lemma map_eq_append3:
  assumes "map g xs = a @ b @ c"
  shows "\<exists>us x vs. xs = us @ x @ vs \<and> map g x = b"
proof -
  let ?r = "drop (length a) xs"
  let ?x = "take (length b) ?r"
  have "?r = ?x @ drop (length b) ?r"
    by (rule append_take_drop_id [symmetric])
  moreover have "xs = take (length a) xs @ ?r"
    by (rule append_take_drop_id [symmetric])
  ultimately have "xs = take (length a) xs @ ?x @ drop (length b) ?r"
    by metis
  moreover have "map g ?x = take (length b) (drop (length a) (map g xs))"
    by (simp add: take_map drop_map)
  then have "map g ?x = b"
    using assms by simp
  ultimately show ?thesis by blast
qed

lemma contains_lower_iff:
  "contains (lower marker) (lower f) \<longleftrightarrow> occurs_ignoring_case marker f"
proof
  assume "contains (lower marker) (lower f)"
  then obtain pre post where "map lower_char f = pre @ lower marker @ post"
    by (auto simp: contains_iff lower_def)
  then obtain x where "\<exists>us vs. f = us @ x @ vs" and "map lower_char x = lower marker"
    using map_eq_append3 by blast
  then show "occurs_ignoring_case marker f"
    unfolding occurs_ignoring_case_def lower_def by blast
next
  assume "occurs_ignoring_case marker f"
  then obtain pre x post where "f = pre @ x @ post" and "lower x = lower marker"
    unfolding occurs_ignoring_case_def by blast
  then have "lower f = lower pre @ lower marker @ lower post"
    by (simp add: lower_def)
  then show "contains (lower marker) (lower f)"
    unfolding contains_iff by blast
qed

lemma lower_arch_linux: "lower ''arch linux'' = ''arch linux''"
  by code_simp

lemma lower_ubuntu: "lower ''ubuntu'' = ''ubuntu''"
  by code_simp

lemma detect_os_auto:
  "selected_os \<noteq> ''arch'' \<Longrightarrow> selected_os \<noteq> ''ubuntu'' \<Longrightarrow> os_release e = Some f \<Longrightarrow>
   detect_os e selected_os =
     (if occurs_ignoring_case ''arch linux'' f then ''arch''
      else if occurs_ignoring_case ''ubuntu'' f then ''ubuntu''
      else ''unknown'')"
  using contains_lower_iff [of "''arch linux''" f] contains_lower_iff [of "''ubuntu''" f]
  by (simp add: detect_os_def lower_arch_linux lower_ubuntu Let_def)


lemma arch_host_mentions_arch:
  "occurs_ignoring_case ''arch linux'' ''NAME=Arch Linux (not Ubuntu)''"
proof -
  have "''NAME=Arch Linux (not Ubuntu)'' = ''NAME='' @ ''Arch Linux'' @ '' (not Ubuntu)''"
    by simp
  moreover have "lower ''Arch Linux'' = lower ''arch linux''"
    by code_simp
  ultimately show ?thesis
    unfolding occurs_ignoring_case_def by blast
qed

lemma arch_host_mentions_ubuntu:
  "occurs_ignoring_case ''ubuntu'' ''NAME=Arch Linux (not Ubuntu)''"
proof -
  have "''NAME=Arch Linux (not Ubuntu)'' = ''NAME=Arch Linux (not '' @ ''Ubuntu'' @ '')''"
    by simp
  moreover have "lower ''Ubuntu'' = lower ''ubuntu''"
    by code_simp
  ultimately show ?thesis
    unfolding occurs_ignoring_case_def by blast
qed



text \<open>The loops of the advisor are a filter and a map.\<close>

lemma missing_loop_filter:
  "missing_loop e cmds = filter (\<lambda>cmd. \<not> truthy (which e cmd)) cmds"
  by (induction cmds) simp_all

lemma suggest_loop_map:
  "suggest_loop pkgmgr cmds = map (\<lambda>cmd. Print (''  '' @ pkgmgr @ '' '' @ cmd)) cmds"
  by (induction cmds) simp_all

lemma suggest_install_script_env:
  assumes "os_release e1 = os_release e2"
    and "\<forall>cmd \<in> set commands_to_check. which e1 cmd = which e2 cmd"
  shows "suggest_install_script e1 v = suggest_install_script e2 v"
proof -
  have "detect_os e1 ''auto'' = detect_os e2 ''auto''"
    using assms(1) by (simp add: detect_os_def)
  moreover have "missing_loop e1 [''systemctl'', ''bash'', ''nano''] =
      missing_loop e2 [''systemctl'', ''bash'', ''nano'']"
    using assms(2) by (simp add: commands_to_check_def)
  ultimately show ?thesis
    unfolding suggest_install_script_def by simp
qed

text \<open>
  C8. Two invocations of \<open>--dependencies script\<close> that see the same
  \<open>/etc/os-release\<close> and the same search-path resolution, with the same verbosity,
  print the same suggestions after the OS notice, whatever \<open>--os\<close> each was given: the
  family is detected anew with the selection \<open>auto\<close>. The suggestions are the
  confirmation alone when nothing is missing, and otherwise a heading and one line for
  each missing program with the pacman prefix on arch, the apt-get prefix on ubuntu and
  the placeholder otherwise.
\<close>

theorem suggest_ignores_os_selection:
  assumes "dependencies a1 = Some ''script''" and "dependencies a2 = Some ''script''"
    and "verbose a1 = verbose a2"
    and "os_release e1 = os_release e2"
    and "\<forall>cmd \<in> set commands_to_check. which e1 cmd = which e2 cmd"
  shows "main_dispatch e1 a1 = (notice e1 a1 @ suggest_install_script e1 (verbose a1), 0)
    \<and> main_dispatch e2 a2 = (notice e2 a2 @ suggest_install_script e1 (verbose a1), 0)
    \<and> suggest_install_script e1 (verbose a1) =
        (let missing = filter (\<lambda>cmd. \<not> truthy (which e1 cmd)) commands_to_check;
             pkgmgr = (if detect_os e1 ''auto'' = ''arch'' then ''sudo pacman -S''
                       else if detect_os e1 ''auto'' = ''ubuntu'' then ''sudo apt-get install''
                       else ''<your_package_manager_install_command>'')
         in if missing = [] then [Print ''All essential commands appear to be installed.'']
            else Print ''Suggested installation commands (based on detected OS):'' #
                 map (\<lambda>cmd. Print (''  '' @ pkgmgr @ '' '' @ cmd)) missing @
                 (if verbose a1 then [Print ''Suggested install script generation completed.'']
                  else []))"
proof (intro conjI)
  show "main_dispatch e1 a1 = (notice e1 a1 @ suggest_install_script e1 (verbose a1), 0)"
    using assms(1) by (rule dispatch_script)
  have "suggest_install_script e2 (verbose a2) = suggest_install_script e1 (verbose a1)"
    using suggest_install_script_env [OF assms(4) assms(5)] assms(3) by simp
  then show "main_dispatch e2 a2 = (notice e2 a2 @ suggest_install_script e1 (verbose a1), 0)"
    using dispatch_script [OF assms(2), of e2] by simp
  show "suggest_install_script e1 (verbose a1) =
        (let missing = filter (\<lambda>cmd. \<not> truthy (which e1 cmd)) commands_to_check;
             pkgmgr = (if detect_os e1 ''auto'' = ''arch'' then ''sudo pacman -S''
                       else if detect_os e1 ''auto'' = ''ubuntu'' then ''sudo apt-get install''
                       else ''<your_package_manager_install_command>'')
         in if missing = [] then [Print ''All essential commands appear to be installed.'']
            else Print ''Suggested installation commands (based on detected OS):'' #
                 map (\<lambda>cmd. Print (''  '' @ pkgmgr @ '' '' @ cmd)) missing @
                 (if verbose a1 then [Print ''Suggested install script generation completed.'']
                  else []))"
    unfolding suggest_install_script_def missing_loop_filter suggest_loop_map
      commands_to_check_def Let_def
    by simp
qed

lemma detect_os_arch_host: "detect_os arch_host ''auto'' = ''arch''"
  using detect_os_auto [of "''auto''" arch_host "''NAME=Arch Linux (not Ubuntu)''"]
    arch_host_mentions_arch
  by (simp add: arch_host_def)

theorem suggest_ignores_os_selection_witness:
  "main_dispatch arch_host (defaults\<lparr>dependencies := Some ''script'', os := ''ubuntu''\<rparr>) =
     ([Print ''Suggested installation commands (based on detected OS):'',
       Print ''  sudo pacman -S systemctl'',
       Print ''  sudo pacman -S nano''], 0)
   \<and> main_dispatch arch_host (defaults\<lparr>dependencies := Some ''script''\<rparr>) =
     ([Print ''Suggested installation commands (based on detected OS):'',
       Print ''  sudo pacman -S systemctl'',
       Print ''  sudo pacman -S nano''], 0)"
proof -
  let ?a1 = "defaults\<lparr>dependencies := Some ''script'', os := ''ubuntu''\<rparr>"
  let ?a2 = "defaults\<lparr>dependencies := Some ''script''\<rparr>"
  have hyps: "dependencies ?a1 = Some ''script''" "dependencies ?a2 = Some ''script''"
    "verbose ?a1 = verbose ?a2" "os_release arch_host = os_release arch_host"
    "\<forall>cmd \<in> set commands_to_check. which arch_host cmd = which arch_host cmd"
    by (simp_all add: defaults_def)
  have quiet: "notice arch_host ?a1 = []" "notice arch_host ?a2 = []" "\<not> verbose ?a1"
    by (simp_all add: notice_def defaults_def)
  have missing: "filter (\<lambda>cmd. \<not> truthy (which arch_host cmd)) commands_to_check =
      [''systemctl'', ''nano'']"
    by (simp add: commands_to_check_def arch_host_def)
  from suggest_ignores_os_selection [OF hyps] quiet missing detect_os_arch_host
  show ?thesis by (simp add: Let_def)
qed

section \<open>The runner\<close>



















section \<open>The unit files\<close>

text \<open>The lines of a text joined with newlines are the lines of its parts.\<close>

lemma split_lines_nonempty: "split_lines s \<noteq> []"
  by (induction s) (simp_all split: list.splits)

lemma split_lines_append_nl: "split_lines (a @ nl @ b) = split_lines a @ split_lines b"
proof (induction a)
  case Nil
  show ?case by (simp add: nl_def)
next
  case (Cons c a)
  obtain l ls where "split_lines a = l # ls"
    using split_lines_nonempty [of a] by (cases "split_lines a") auto
  with Cons show ?case by simp
qed

lemma split_lines_join:
  "ls \<noteq> [] \<Longrightarrow> split_lines (str_join nl ls) = concat (map split_lines ls)"
proof (induction ls)
  case Nil
  then show ?case by simp
next
  case (Cons x xs)
  note IH = Cons.IH
  show ?case
  proof (cases xs)
    case Nil
    then show ?thesis by simp
  next
    case (Cons y ys)
    with IH have "split_lines (str_join nl (y # ys)) = concat (map split_lines (y # ys))"
      by simp
    with Cons show ?thesis
      by (simp add: split_lines_append_nl)
  qed
qed

lemma split_lines_one: "CHR 0x0A \<notin> set s \<Longrightarrow> split_lines s = [s]"
  by (induction s) auto

lemma line_of_join:
  "l \<in> set ls \<Longrightarrow> CHR 0x0A \<notin> set l \<Longrightarrow> l \<in> set (split_lines (str_join nl ls))"
proof -
  assume l: "l \<in> set ls" and "CHR 0x0A \<notin> set l"
  then have "split_lines l = [l]" by (rule_tac split_lines_one)
  with l have "l \<in> set (concat (map split_lines ls))" by force
  moreover from l have "ls \<noteq> []" by auto
  ultimately show ?thesis by (simp add: split_lines_join)
qed

lemma parse_create_full:
  "parse_args [''--configs'', ''create'', ''--run-arg'', ''/tmp/x'',
               ''--OnCalendar'', ''09:00:00'', ''--Persistent'', ''false''] =
     Parsed (defaults\<lparr>configs := Some ''create'', run_arg := Some ''/tmp/x'',
                      OnCalendar := Some ''09:00:00'', Persistent := Some ''false''\<rparr>)"
  by (simp add: parse_args_def in_fragment_def option_strings_def)

text \<open>
  C4. For \<open>configs create\<close> with run-arg \<open>/tmp/x\<close>, OnCalendar \<open>09:00:00\<close> and
  Persistent \<open>false\<close>, the text written to the timer file has the lines
  \<open>OnCalendar=09:00:00\<close> and \<open>Persistent=false\<close>, and the execution line of the
  service file ends with \<open>--run "/tmp/x"\<close>. An unset Persistent gives \<open>true\<close>, and
  so does any value other than \<open>true\<close> and \<open>false\<close>, with nothing printed about
  it; an unset OnCalendar gives \<open>*-*-* 14:00:00\<close>.
\<close>

theorem create_writes_schedule:
  "(run_arg a = Some ''/tmp/x'' \<and> OnCalendar a = Some ''09:00:00'' \<and>
    Persistent a = Some ''false'' \<longrightarrow>
      ''OnCalendar=09:00:00'' \<in> set (split_lines (str_join nl (timer_content e a)))
      \<and> ''Persistent=false'' \<in> set (split_lines (str_join nl (timer_content e a)))
      \<and> service_content e a ! 6 =
          ''ExecStart=/usr/bin/env python3 '' @ script_path e @ '' --run '' @
            dq @ ''/tmp/x'' @ dq
      \<and> (CHR 0x0A \<notin> set (script_path e) \<longrightarrow>
           ''ExecStart=/usr/bin/env python3 '' @ script_path e @ '' --run '' @
             dq @ ''/tmp/x'' @ dq \<in> set (split_lines (str_join nl (service_content e a)))))
   \<and> create_service_and_timer e a ! 1 =
       Write_file (service_file e) (str_join nl (service_content e a))
   \<and> create_service_and_timer e a ! 2 =
       Write_file (timer_file e) (str_join nl (timer_content e a))
   \<and> (Persistent a = None \<longrightarrow> persistent_value a = ''true'')
   \<and> (\<forall>v. Persistent a = Some v \<longrightarrow>
         persistent_value a = (if v = ''true'' \<or> v = ''false'' then v else ''true''))
   \<and> (OnCalendar a = None \<longrightarrow> on_calendar a = ''*-*-* 14:00:00'')
   \<and> timer_content e a ! 4 = ''OnCalendar='' @ on_calendar a
   \<and> timer_content e a ! 5 = ''Persistent='' @ persistent_value a
   \<and> filter is_print (create_service_and_timer e (a\<lparr>Persistent := p\<rparr>)) =
       filter is_print (create_service_and_timer e a)
   \<and> main e [''--configs'', ''create'', ''--run-arg'', ''/tmp/x'',
              ''--OnCalendar'', ''09:00:00'', ''--Persistent'', ''false''] =
       Some (create_service_and_timer e
               (defaults\<lparr>configs := Some ''create'', run_arg := Some ''/tmp/x'',
                          OnCalendar := Some ''09:00:00'', Persistent := Some ''false''\<rparr>), 0)"
proof (intro conjI impI allI)
  let ?exec = "''ExecStart=/usr/bin/env python3 '' @ script_path e @ '' --run '' @
               dq @ ''/tmp/x'' @ dq"
  assume h: "run_arg a = Some ''/tmp/x'' \<and> OnCalendar a = Some ''09:00:00'' \<and>
    Persistent a = Some ''false''"
  have cal: "''OnCalendar=09:00:00'' \<in> set (timer_content e a)"
    using h by (simp add: timer_content_def on_calendar_def)
  have per: "''Persistent=false'' \<in> set (timer_content e a)"
    using h by (simp add: timer_content_def persistent_value_def)
  have ex: "?exec \<in> set (service_content e a)"
    using h by (simp add: service_content_def)
  show "''OnCalendar=09:00:00'' \<in> set (split_lines (str_join nl (timer_content e a)))"
    using cal by (rule line_of_join) simp
  show "''Persistent=false'' \<in> set (split_lines (str_join nl (timer_content e a)))"
    using per by (rule line_of_join) simp
  show "service_content e a ! 6 = ?exec"
    using h by (simp add: service_content_def)
  assume "CHR 0x0A \<notin> set (script_path e)"
  then have "CHR 0x0A \<notin> set ?exec" by (simp add: dq_def)
  with ex show "?exec \<in> set (split_lines (str_join nl (service_content e a)))"
    by (rule line_of_join)
next
  show "create_service_and_timer e a ! 1 =
       Write_file (service_file e) (str_join nl (service_content e a))"
    "create_service_and_timer e a ! 2 =
       Write_file (timer_file e) (str_join nl (timer_content e a))"
    by (simp_all add: create_service_and_timer_def)
next
  assume "Persistent a = None"
  then show "persistent_value a = ''true''" by (simp add: persistent_value_def)
next
  fix v assume "Persistent a = Some v"
  then show "persistent_value a = (if v = ''true'' \<or> v = ''false'' then v else ''true'')"
    by (simp add: persistent_value_def)
next
  assume "OnCalendar a = None"
  then show "on_calendar a = ''*-*-* 14:00:00''" by (simp add: on_calendar_def)
next
  show "timer_content e a ! 4 = ''OnCalendar='' @ on_calendar a"
    "timer_content e a ! 5 = ''Persistent='' @ persistent_value a"
    by (simp_all add: timer_content_def)
  show "filter is_print (create_service_and_timer e (a\<lparr>Persistent := p\<rparr>)) =
       filter is_print (create_service_and_timer e a)"
    by (simp add: create_service_and_timer_def)
  show "main e [''--configs'', ''create'', ''--run-arg'', ''/tmp/x'',
              ''--OnCalendar'', ''09:00:00'', ''--Persistent'', ''false''] =
       Some (create_service_and_timer e
               (defaults\<lparr>configs := Some ''create'', run_arg := Some ''/tmp/x'',
                          OnCalendar := Some ''09:00:00'', Persistent := Some ''false''\<rparr>), 0)"
    by (simp add: main_def parse_create_full main_dispatch_def defaults_def handle_configs_def)
qed

theorem create_writes_schedule_witness:
  "''OnCalendar=09:00:00'' \<in> set (split_lines (str_join nl (timer_content bare_host
      (defaults\<lparr>configs := Some ''create'', run_arg := Some ''/tmp/x'',
                 OnCalendar := Some ''09:00:00'', Persistent := Some ''false''\<rparr>))))
   \<and> ''Persistent=false'' \<in> set (split_lines (str_join nl (timer_content bare_host
      (defaults\<lparr>configs := Some ''create'', run_arg := Some ''/tmp/x'',
                 OnCalendar := Some ''09:00:00'', Persistent := Some ''false''\<rparr>))))
   \<and> service_content bare_host
      (defaults\<lparr>configs := Some ''create'', run_arg := Some ''/tmp/x'',
                 OnCalendar := Some ''09:00:00'', Persistent := Some ''false''\<rparr>) ! 6 =
      ''ExecStart=/usr/bin/env python3 /opt/tool.py --run '' @ dq @ ''/tmp/x'' @ dq
   \<and> persistent_value defaults = ''true''
   \<and> persistent_value (defaults\<lparr>Persistent := Some ''yes''\<rparr>) = ''true''
   \<and> on_calendar defaults = ''*-*-* 14:00:00''"
proof -
  let ?a = "defaults\<lparr>configs := Some ''create'', run_arg := Some ''/tmp/x'',
                 OnCalendar := Some ''09:00:00'', Persistent := Some ''false''\<rparr>"
  have h: "run_arg ?a = Some ''/tmp/x'' \<and> OnCalendar ?a = Some ''09:00:00'' \<and>
      Persistent ?a = Some ''false''"
    by (simp add: defaults_def)
  have sp: "script_path bare_host = ''/opt/tool.py''"
    by (simp add: bare_host_def)
  from create_writes_schedule [of ?a bare_host None]
  have "run_arg ?a = Some ''/tmp/x'' \<and> OnCalendar ?a = Some ''09:00:00'' \<and>
      Persistent ?a = Some ''false'' \<longrightarrow>
      ''OnCalendar=09:00:00'' \<in> set (split_lines (str_join nl (timer_content bare_host ?a)))
      \<and> ''Persistent=false'' \<in> set (split_lines (str_join nl (timer_content bare_host ?a)))
      \<and> service_content bare_host ?a ! 6 =
          ''ExecStart=/usr/bin/env python3 '' @ script_path bare_host @ '' --run '' @
            dq @ ''/tmp/x'' @ dq
      \<and> (CHR 0x0A \<notin> set (script_path bare_host) \<longrightarrow>
           ''ExecStart=/usr/bin/env python3 '' @ script_path bare_host @ '' --run '' @
             dq @ ''/tmp/x'' @ dq \<in>
           set (split_lines (str_join nl (service_content bare_host ?a))))"
    by (elim conjE)
  with h have files:
    "''OnCalendar=09:00:00'' \<in> set (split_lines (str_join nl (timer_content bare_host ?a)))
      \<and> ''Persistent=false'' \<in> set (split_lines (str_join nl (timer_content bare_host ?a)))
      \<and> service_content bare_host ?a ! 6 =
          ''ExecStart=/usr/bin/env python3 '' @ script_path bare_host @ '' --run '' @
            dq @ ''/tmp/x'' @ dq
      \<and> (CHR 0x0A \<notin> set (script_path bare_host) \<longrightarrow>
           ''ExecStart=/usr/bin/env python3 '' @ script_path bare_host @ '' --run '' @
             dq @ ''/tmp/x'' @ dq \<in>
           set (split_lines (str_join nl (service_content bare_host ?a))))"
    by (rule rev_mp)
  from create_writes_schedule [of defaults bare_host None]
  have "Persistent defaults = None \<longrightarrow> persistent_value defaults = ''true''"
    by (elim conjE)
  then have d1: "persistent_value defaults = ''true''"
    by (simp add: defaults_def)
  from create_writes_schedule [of defaults bare_host None]
  have "OnCalendar defaults = None \<longrightarrow> on_calendar defaults = ''*-*-* 14:00:00''"
    by (elim conjE)
  then have d2: "on_calendar defaults = ''*-*-* 14:00:00''"
    by (simp add: defaults_def)
  from create_writes_schedule [of "defaults\<lparr>Persistent := Some ''yes''\<rparr>" bare_host None]
  have "\<forall>v. Persistent (defaults\<lparr>Persistent := Some ''yes''\<rparr>) = Some v \<longrightarrow>
      persistent_value (defaults\<lparr>Persistent := Some ''yes''\<rparr>) =
        (if v = ''true'' \<or> v = ''false'' then v else ''true'')"
    by (elim conjE)
  then have d3: "persistent_value (defaults\<lparr>Persistent := Some ''yes''\<rparr>) = ''true''"
    by simp
  note f1 = files [THEN conjunct1]
    and f2 = files [THEN conjunct2, THEN conjunct1]
    and f3 = files [THEN conjunct2, THEN conjunct2, THEN conjunct1]
  have f3': "service_content bare_host ?a ! 6 =
      ''ExecStart=/usr/bin/env python3 /opt/tool.py --run '' @ dq @ ''/tmp/x'' @ dq"
    using f3 by (simp add: sp)
  show ?thesis
    by (intro conjI) (rule f1 f2 f3' d1 d2 d3)+
qed

end
